theory Spec2Isabelle
  imports Main "HOL-Library.Log_Nat"
begin

section \<open>Python floats, as far as the fee split needs them\<close>

text \<open>
  Both fee computations multiply an \<open>int\<close> by a float literal and truncate the product
  with \<open>int(...)\<close>. A finite binary64 value is written here as a pair \<open>(m, e)\<close> standing
  for \<open>m * 2 ^ e\<close>. Every arithmetic result is rounded to 53 significant bits, ties to
  even. Overflow and subnormals are outside the model: the operands are consultation
  fees (an SQL \<open>Integer\<close> column) and the two literals below.
\<close>

type_synonym double = "int \<times> int"

definition round_shift :: "int \<Rightarrow> nat \<Rightarrow> int" where
  \<comment> \<open>\<open>a / 2 ^ k\<close> rounded to the nearest integer, ties to even (\<open>a\<close> non-negative)\<close>
  "round_shift a k =
     (if k = 0 then a
      else let q = a div 2 ^ k; r = a mod 2 ^ k; h = 2 ^ (k - 1)
           in if r < h then q else if h < r then q + 1
              else if even q then q else q + 1)"

definition round53 :: "double \<Rightarrow> double" where
  "round53 x =
     (let m = fst x; e = snd x; k = bitlen \<bar>m\<bar> - 53
      in if k \<le> 0 then (m, e) else (sgn m * round_shift \<bar>m\<bar> (nat k), e + k))"

definition float_of_int :: "int \<Rightarrow> double" where
  \<comment> \<open>the conversion Python applies to the \<open>int\<close> operand of \<open>int * float\<close>\<close>
  "float_of_int n = round53 (n, 0)"

definition float_mul :: "double \<Rightarrow> double \<Rightarrow> double" where
  "float_mul x y = round53 (fst x * fst y, snd x + snd y)"

definition py_int :: "double \<Rightarrow> int" where
  \<comment> \<open>\<open>int(x)\<close>: truncation towards zero\<close>
  "py_int x =
     (let m = fst x; e = snd x
      in if 0 \<le> e then m * 2 ^ nat e else sgn m * (\<bar>m\<bar> div 2 ^ nat (- e)))"

definition PLATFORM_FEE_PERCENTAGE :: double where
  \<comment> \<open>the literal \<open>0.20\<close>, 0x3FC999999999999A\<close>
  "PLATFORM_FEE_PERCENTAGE = (7205759403792794, - 55)"

definition DOCTOR_SHARE_PERCENTAGE :: double where
  \<comment> \<open>the literal \<open>0.80\<close>, 0x3FE999999999999A\<close>
  "DOCTOR_SHARE_PERCENTAGE = (7205759403792794, - 53)"

section \<open>Fee split\<close>

record breakdown =
  bd_total_amount :: int
  bd_platform_fee :: int
  bd_doctor_share :: int

definition calculate_payment_breakdown :: "int \<Rightarrow> breakdown" where
  \<comment> \<open>appointments.py, the booking-time split\<close>
  "calculate_payment_breakdown consultation_fee =
     (let total_amount = consultation_fee;
          platform_fee = py_int (float_mul (float_of_int total_amount) PLATFORM_FEE_PERCENTAGE);
          doctor_share = total_amount - platform_fee
      in \<lparr>bd_total_amount = total_amount, bd_platform_fee = platform_fee,
          bd_doctor_share = doctor_share\<rparr>)"

definition order_payment_split :: "int \<Rightarrow> breakdown" where
  \<comment> \<open>payments.py, \<open>create_payment_order\<close>: the three amounts of a new payment record\<close>
  "order_payment_split amount =
     \<lparr>bd_total_amount = amount,
      bd_platform_fee = py_int (float_mul (float_of_int amount) PLATFORM_FEE_PERCENTAGE),
      bd_doctor_share = py_int (float_mul (float_of_int amount) DOCTOR_SHARE_PERCENTAGE)\<rparr>"

section \<open>Ledger store\<close>

text \<open>
  The store is the committed database. Tables are lists of rows in insertion order;
  \<open>query.filter(P).first()\<close> is \<^const>\<open>find\<close> and a mutation of the object it
  returned is \<open>update_first\<close>. Dates are day numbers, times of day and naive datetimes
  are microsecond counts, so \<open>datetime.combine\<close> and \<open>timedelta\<close> arithmetic are integer
  arithmetic.

  A row carries the columns that \<open>models.py\<close> declares and the modelled endpoints
  touch; a \<open>NOT NULL\<close> column that a constructor call may leave unset is an option.
  Names, reasons, symptoms, descriptions, timestamps, and the audit and notification
  tables are left out; of a prescription and of a QR row only the unique
  \<open>appointment_id\<close> is kept.

  An endpoint returns the store after the call together with its answer. Nothing is
  written before \<open>db.commit()\<close>: the session is created with \<open>autoflush=False\<close>, and
  an exception before the commit, or a constraint violated while the commit flushes,
  leaves the store as it was.
\<close>

datatype PaymentStatus = PENDING | SUCCESS | FAILED | REFUNDED | PARTIALLY_REFUNDED

definition PaymentStatus_members :: "(string \<times> PaymentStatus) list" where
  \<comment> \<open>the enum of \<open>models.py\<close>, by member name\<close>
  "PaymentStatus_members =
     [(''PENDING'', PENDING), (''SUCCESS'', SUCCESS), (''FAILED'', FAILED),
      (''REFUNDED'', REFUNDED), (''PARTIALLY_REFUNDED'', PARTIALLY_REFUNDED)]"

definition PaymentStatus_attr :: "string \<Rightarrow> PaymentStatus option" where
  \<comment> \<open>\<open>PaymentStatus.NAME\<close>; \<open>None\<close> is the AttributeError of an undeclared member\<close>
  "PaymentStatus_attr name = map_of PaymentStatus_members name"

fun status_value :: "PaymentStatus \<Rightarrow> string" where
  "status_value PENDING = ''pending''"
| "status_value SUCCESS = ''success''"
| "status_value FAILED = ''failed''"
| "status_value REFUNDED = ''refunded''"
| "status_value PARTIALLY_REFUNDED = ''partially_refunded''"

datatype PaymentMethod = ADVANCE | PAY_AT_CLINIC

record Doctor =
  d_id :: int
  d_user_id :: int
  d_is_available :: bool
  d_consultation_fee :: int
  d_total_consultations :: int
  d_next_available_slot :: "int option"

record DoctorSlot =
  s_id :: int
  s_doctor_id :: int
  s_date :: int
  s_start_time :: int
  s_end_time :: int
  s_is_booked :: bool
  s_is_blocked :: bool

record Appointment =
  a_id :: string
  a_user_id :: int
  a_doctor_id :: int
  a_slot_id :: int
  a_date :: int
  a_time :: int
  a_status :: string
  a_consultation_fee :: "int option"
  a_cancellation_reason :: "string option"
  a_cancelled_at :: "int option"

record AppointmentPayment =
  p_appointment_id :: string
  p_total_amount :: int
  p_platform_fee :: int
  p_doctor_share :: int
  p_razorpay_order_id :: "string option"
  p_razorpay_payment_id :: "string option"
  p_razorpay_signature :: "string option"
  p_payment_status :: string

record DoctorWallet =
  w_id :: int
  w_doctor_id :: int
  w_current_balance :: int
  w_total_earned :: int
  w_total_withdrawn :: int
  w_pending_withdrawal :: int

record WalletTransaction =
  t_doctor_id :: "int option"
  t_wallet_id :: int
  t_appointment_id :: "string option"
  t_amount :: int
  t_transaction_type :: string
  t_balance_before :: int
  t_balance_after :: int

record db =
  users :: "int list"
  doctors :: "Doctor list"
  slots :: "DoctorSlot list"
  appointments :: "Appointment list"
  payments :: "AppointmentPayment list"
  wallets :: "DoctorWallet list"
  wallet_transactions :: "WalletTransaction list"
  prescriptions :: "string list"
  qr_codes :: "string list"

text \<open>
  Errors are the HTTP errors the endpoints raise and the Python exceptions that end a
  call or a background task.
\<close>

datatype error =
    UserNotFound | DoctorNotFound | SlotNotFound | SlotAlreadyBooked
  | SlotWrongDoctor | SlotWrongDate | PastAppointment | BelowMinimumLeadTime
  | DailyCapReached | BookingFailed
  | InvalidSignature | AppointmentNotFound | PaymentRecordNotFound | VerificationFailed
  | NoPaymentToRefund | RefundWindowClosed | RefundFailed
  | DoctorProfileNotFound | WalletNotFound | InsufficientBalance int
  | BelowMinimumWithdrawal | InternalServerError
  | TypeError | IntegrityError | ValidationError

fun status_code :: "error \<Rightarrow> nat" where
  "status_code UserNotFound = 404"
| "status_code DoctorNotFound = 404"
| "status_code SlotNotFound = 404"
| "status_code BookingFailed = 500"
| "status_code AppointmentNotFound = 404"
| "status_code PaymentRecordNotFound = 404"
| "status_code VerificationFailed = 500"
| "status_code DoctorProfileNotFound = 404"
| "status_code WalletNotFound = 404"
| "status_code InternalServerError = 500"
| "status_code TypeError = 500"
| "status_code IntegrityError = 500"
| "status_code ValidationError = 500"
| "status_code _ = 400"

fun update_first :: "('a \<Rightarrow> bool) \<Rightarrow> ('a \<Rightarrow> 'a) \<Rightarrow> 'a list \<Rightarrow> 'a list" where
  "update_first P f [] = []"
| "update_first P f (x # xs) = (if P x then f x # xs else x # update_first P f xs)"

definition next_wallet_id :: "DoctorWallet list \<Rightarrow> int" where
  \<comment> \<open>the autoincrement primary key of a new wallet row\<close>
  "next_wallet_id ws = fold max (map w_id ws) 0 + 1"

definition and_then :: "error + 'a \<Rightarrow> ('a \<Rightarrow> error + 'b) \<Rightarrow> error + 'b" where
  "and_then r f = (case r of Inl e \<Rightarrow> Inl e | Inr x \<Rightarrow> f x)"

subsection \<open>Constructors and inserts\<close>

text \<open>
  The declarative constructor accepts a keyword only if the class has an attribute of
  that name, and raises TypeError otherwise. The attribute lists are the columns and
  relationships of \<open>models.py\<close>, with the two attributes every declarative class
  inherits.
\<close>

definition declarative_constructor :: "string list \<Rightarrow> string list \<Rightarrow> error + unit" where
  "declarative_constructor attrs kwargs =
     (case find (\<lambda>k. k \<notin> set attrs) kwargs of Some k \<Rightarrow> Inl TypeError | None \<Rightarrow> Inr ())"

definition Base_attrs :: "string list" where
  "Base_attrs = [''metadata'', ''registry'']"

definition Appointment_attrs :: "string list" where
  "Appointment_attrs = Base_attrs @
     [''id'', ''user_id'', ''doctor_id'', ''slot_id'', ''date'', ''time'', ''reason'',
      ''symptoms'', ''is_emergency'', ''consultation_type'', ''status'',
      ''consultation_fee'', ''payment_id'', ''prescription'', ''notes'', ''qr_code'',
      ''cancellation_reason'', ''cancelled_at'', ''created_at'', ''updated_at'',
      ''user'', ''doctor'', ''payment'', ''prescription_obj'', ''appointment_payment'',
      ''qr_code_obj'', ''uploaded_files'']"

definition QRCode_attrs :: "string list" where
  "QRCode_attrs = Base_attrs @
     [''id'', ''appointment_id'', ''qr_data'', ''verification_token'', ''is_used'',
      ''used_at'', ''created_at'', ''appointment'']"

text \<open>
  An insert is refused with IntegrityError when it violates a declared key or leaves a
  \<open>NOT NULL\<close> column empty.
\<close>

definition insert_appointment :: "db \<Rightarrow> Appointment \<Rightarrow> error + db" where
  \<comment> \<open>primary key \<open>id\<close>; \<open>consultation_fee\<close> is \<open>nullable=False\<close>\<close>
  "insert_appointment s a =
     (if find (\<lambda>x. a_id x = a_id a) (appointments s) \<noteq> None \<or> a_consultation_fee a = None
      then Inl IntegrityError
      else Inr (s\<lparr>appointments := appointments s @ [a]\<rparr>))"

definition insert_payment :: "db \<Rightarrow> AppointmentPayment \<Rightarrow> error + db" where
  \<comment> \<open>\<open>appointment_id\<close> is unique\<close>
  "insert_payment s p =
     (if find (\<lambda>x. p_appointment_id x = p_appointment_id p) (payments s) \<noteq> None
      then Inl IntegrityError
      else Inr (s\<lparr>payments := payments s @ [p]\<rparr>))"

definition insert_wallet :: "db \<Rightarrow> DoctorWallet \<Rightarrow> error + db" where
  \<comment> \<open>\<open>doctor_id\<close> is unique\<close>
  "insert_wallet s w =
     (if find (\<lambda>x. w_doctor_id x = w_doctor_id w) (wallets s) \<noteq> None
      then Inl IntegrityError
      else Inr (s\<lparr>wallets := wallets s @ [w]\<rparr>))"

definition insert_wallet_transaction :: "db \<Rightarrow> WalletTransaction \<Rightarrow> error + db" where
  \<comment> \<open>\<open>doctor_id\<close> is \<open>nullable=False\<close>; \<open>appointment_id\<close> is unique where set\<close>
  "insert_wallet_transaction s t =
     (if t_doctor_id t = None
         \<or> (t_appointment_id t \<noteq> None
             \<and> find (\<lambda>x. t_appointment_id x = t_appointment_id t) (wallet_transactions s) \<noteq> None)
      then Inl IntegrityError
      else Inr (s\<lparr>wallet_transactions := wallet_transactions s @ [t]\<rparr>))"

definition insert_prescription :: "db \<Rightarrow> string \<Rightarrow> error + db" where
  "insert_prescription s appointment_id =
     (if appointment_id \<in> set (prescriptions s) then Inl IntegrityError
      else Inr (s\<lparr>prescriptions := prescriptions s @ [appointment_id]\<rparr>))"

definition insert_qr_code :: "db \<Rightarrow> string \<Rightarrow> error + db" where
  "insert_qr_code s appointment_id =
     (if appointment_id \<in> set (qr_codes s) then Inl IntegrityError
      else Inr (s\<lparr>qr_codes := qr_codes s @ [appointment_id]\<rparr>))"

section \<open>Doctor wallet ledger\<close>

text \<open>
  The three operations build their \<open>WalletTransaction\<close> without \<open>doctor_id\<close>; the
  keyword \<open>metadata\<close> that two of them pass is an attribute of every declarative
  class, so the constructor accepts it.
\<close>

definition credit_doctor_wallet :: "db \<Rightarrow> int \<Rightarrow> int \<Rightarrow> string \<Rightarrow> error + db" where
  \<comment> \<open>payments.py: get or create the wallet, add the credit row, raise the balance,
      commit; \<open>Inl\<close> is the exception that ends the background task\<close>
  "credit_doctor_wallet s doctor_id amount appointment_id =
     and_then
       (case find (\<lambda>w. w_doctor_id w = doctor_id) (wallets s) of
          Some w \<Rightarrow> Inr s
        | None \<Rightarrow> insert_wallet s
            \<lparr>w_id = next_wallet_id (wallets s), w_doctor_id = doctor_id,
             w_current_balance = 0, w_total_earned = 0, w_total_withdrawn = 0,
             w_pending_withdrawal = 0\<rparr>)
       (\<lambda>s1. case find (\<lambda>w. w_doctor_id w = doctor_id) (wallets s1) of
          None \<Rightarrow> Inl IntegrityError
        | Some wallet \<Rightarrow>
            insert_wallet_transaction
              (s1\<lparr>wallets := update_first (\<lambda>w. w_doctor_id w = doctor_id)
                    (\<lambda>w. w\<lparr>w_current_balance := w_current_balance w + amount,
                            w_total_earned := w_total_earned w + amount\<rparr>) (wallets s1)\<rparr>)
              \<lparr>t_doctor_id = None, t_wallet_id = w_id wallet,
               t_appointment_id = Some appointment_id, t_amount = amount,
               t_transaction_type = ''credit'',
               t_balance_before = w_current_balance wallet,
               t_balance_after = w_current_balance wallet + amount\<rparr>)"

definition debit_doctor_wallet :: "db \<Rightarrow> int \<Rightarrow> int \<Rightarrow> string \<Rightarrow> error + db" where
  \<comment> \<open>payments.py: the refund debit; the two HTTP errors are raised before any change\<close>
  "debit_doctor_wallet s doctor_id amount appointment_id =
     (case find (\<lambda>w. w_doctor_id w = doctor_id) (wallets s) of
        None \<Rightarrow> Inl WalletNotFound
      | Some wallet \<Rightarrow>
          if w_current_balance wallet < amount
          then Inl (InsufficientBalance (w_current_balance wallet))
          else insert_wallet_transaction
                 (s\<lparr>wallets := update_first (\<lambda>w. w_doctor_id w = doctor_id)
                      (\<lambda>w. w\<lparr>w_current_balance := w_current_balance w - amount\<rparr>)
                      (wallets s)\<rparr>)
                 \<lparr>t_doctor_id = None, t_wallet_id = w_id wallet,
                  t_appointment_id = Some appointment_id, t_amount = amount,
                  t_transaction_type = ''debit'',
                  t_balance_before = w_current_balance wallet,
                  t_balance_after = w_current_balance wallet - amount\<rparr>)"







section \<open>Payment settlement\<close>

text \<open>
  The payment processor is an external collaborator: its keyed hash, the two shared
  secrets and its refund call are parameters. Work handed to \<open>background_tasks\<close> runs
  after the response, so a successful answer carries the tasks the endpoint queued,
  and \<open>run_tasks\<close> executes them in order. An exception inside a task reaches no
  caller; the task's outcome is kept beside the store.
\<close>

datatype refund_result = Refunded string | BadRequestError | OtherError

record gateway =
  hmac_sha256_hex :: "string \<Rightarrow> string \<Rightarrow> string"
  RAZORPAY_KEY_SECRET :: string
  RAZORPAY_WEBHOOK_SECRET :: string
  payment_refund :: "string option \<Rightarrow> int \<Rightarrow> refund_result"

datatype task = CreditTask int int string | DebitTask int int string

fun run_task :: "db \<Rightarrow> task \<Rightarrow> db \<times> error option" where
  "run_task s (CreditTask doctor_id amount apt) =
     (case credit_doctor_wallet s doctor_id amount apt of
        Inl e \<Rightarrow> (s, Some e)
      | Inr s' \<Rightarrow> (s', None))"
| "run_task s (DebitTask doctor_id amount apt) =
     (case debit_doctor_wallet s doctor_id amount apt of
        Inl e \<Rightarrow> (s, Some e)
      | Inr s' \<Rightarrow> (s', None))"

fun run_tasks :: "db \<Rightarrow> task list \<Rightarrow> db \<times> error option list" where
  "run_tasks s [] = (s, [])"
| "run_tasks s (t # ts) =
     (let (s1, r) = run_task s t; (s2, rs) = run_tasks s1 ts in (s2, r # rs))"

definition verify_razorpay_signature :: "gateway \<Rightarrow> string \<Rightarrow> string \<Rightarrow> string \<Rightarrow> bool" where
  "verify_razorpay_signature g order_id payment_id signature =
     (hmac_sha256_hex g (RAZORPAY_KEY_SECRET g) (order_id @ ''|'' @ payment_id) = signature)"

record VerifyPaymentRequest =
  vr_razorpay_order_id :: string
  vr_razorpay_payment_id :: string
  vr_razorpay_signature :: string
  vr_order_id :: string

definition verify_settle ::
  "db \<Rightarrow> int \<Rightarrow> VerifyPaymentRequest \<Rightarrow> Appointment \<Rightarrow> AppointmentPayment \<Rightarrow> PaymentStatus
     \<Rightarrow> db \<times> (error + task list)" where
  \<comment> \<open>payments.py 552 to 609, given the value of \<open>PaymentStatus.PAID\<close>: the QR row is
      built with the keyword \<open>expires_at\<close>; every exception is answered with 500 after
      a rollback\<close>
  "verify_settle s current_user_id request appointment payment paid =
     (case declarative_constructor QRCode_attrs
             [''appointment_id'', ''qr_data'', ''verification_token'', ''expires_at''] of
        Inl e \<Rightarrow> (s, Inl VerificationFailed)
      | Inr u \<Rightarrow>
         (case insert_qr_code
                 (s\<lparr>payments := update_first (\<lambda>p. p_appointment_id p = vr_order_id request)
                        (\<lambda>p. p\<lparr>p_payment_status := status_value paid,
                                p_razorpay_payment_id := Some (vr_razorpay_payment_id request),
                                p_razorpay_signature := Some (vr_razorpay_signature request)\<rparr>)
                        (payments s),
                    appointments := update_first
                        (\<lambda>a. a_id a = vr_order_id request \<and> a_user_id a = current_user_id)
                        (\<lambda>a. a\<lparr>a_status := ''confirmed''\<rparr>) (appointments s)\<rparr>)
                 (a_id appointment) of
            Inl e \<Rightarrow> (s, Inl VerificationFailed)
          | Inr s' \<Rightarrow>
              (s', Inr [CreditTask (a_doctor_id appointment) (p_doctor_share payment)
                          (vr_order_id request)])))"

definition verify_payment ::
  "gateway \<Rightarrow> db \<Rightarrow> int \<Rightarrow> VerifyPaymentRequest \<Rightarrow> db \<times> (error + task list)" where
  \<comment> \<open>payments.py, the branch \<open>order_type == OrderType.APPOINTMENT\<close>; line 552 reads
      \<open>PaymentStatus.PAID\<close> inside the \<open>try\<close>\<close>
  "verify_payment g s current_user_id request =
     (if \<not> verify_razorpay_signature g (vr_razorpay_order_id request)
            (vr_razorpay_payment_id request) (vr_razorpay_signature request)
      then (s, Inl InvalidSignature)
      else case find (\<lambda>a. a_id a = vr_order_id request \<and> a_user_id a = current_user_id)
                  (appointments s) of
        None \<Rightarrow> (s, Inl AppointmentNotFound)
      | Some appointment \<Rightarrow>
         (case find (\<lambda>p. p_appointment_id p = vr_order_id request) (payments s) of
            None \<Rightarrow> (s, Inl PaymentRecordNotFound)
          | Some payment \<Rightarrow>
             (case PaymentStatus_attr ''PAID'' of
                None \<Rightarrow> (s, Inl VerificationFailed)
              | Some paid \<Rightarrow>
                  verify_settle s current_user_id request appointment payment paid)))"

datatype webhook_event =
    PaymentCaptured "string option" "string option"
  | PaymentFailed "string option"
  | OtherEvent

definition webhook_settle ::
  "db \<Rightarrow> string option \<Rightarrow> string option \<Rightarrow> AppointmentPayment \<Rightarrow> PaymentStatus
     \<Rightarrow> db \<times> (error + task list)" where
  \<comment> \<open>payments.py 749 to 794, given the value of \<open>PaymentStatus.PAID\<close>\<close>
  "webhook_settle s order_id pay_id payment paid =
     (if p_payment_status payment \<noteq> status_value paid then
        (let s1 = s\<lparr>payments := update_first (\<lambda>p. p_razorpay_order_id p = order_id)
                     (\<lambda>p. p\<lparr>p_payment_status := status_value paid,
                             p_razorpay_payment_id := pay_id\<rparr>) (payments s)\<rparr>
         in case find (\<lambda>a. a_id a = p_appointment_id payment) (appointments s) of
              None \<Rightarrow> (s1, Inr [])
            | Some appointment \<Rightarrow>
               (case (if a_id appointment \<in> set (qr_codes s) then Inr s1
                      else insert_qr_code s1 (a_id appointment)) of
                  Inl e \<Rightarrow> (s, Inl InternalServerError)
                | Inr s2 \<Rightarrow>
                    (s2\<lparr>appointments := update_first
                           (\<lambda>a. a_id a = p_appointment_id payment)
                           (\<lambda>a. a\<lparr>a_status := ''confirmed''\<rparr>) (appointments s2)\<rparr>,
                     Inr [CreditTask (a_doctor_id appointment) (p_doctor_share payment)
                            (a_id appointment)])))
      else (s, Inr []))"

definition razorpay_webhook ::
  "gateway \<Rightarrow> db \<Rightarrow> string \<Rightarrow> string \<Rightarrow> webhook_event \<Rightarrow> db \<times> (error + task list)" where
  \<comment> \<open>payments.py; \<open>event\<close> is the parsed \<open>body\<close>: the event name with the entity's
      \<open>order_id\<close> and \<open>id\<close>. Line 749 reads \<open>PaymentStatus.PAID\<close> once a payment is found,
      outside any \<open>try\<close>\<close>
  "razorpay_webhook g s body signature event =
     (if hmac_sha256_hex g (RAZORPAY_WEBHOOK_SECRET g) body \<noteq> signature
      then (s, Inl InvalidSignature)
      else case event of
        PaymentCaptured order_id pay_id \<Rightarrow>
          (case find (\<lambda>p. p_razorpay_order_id p = order_id) (payments s) of
             None \<Rightarrow> (s, Inr [])
           | Some payment \<Rightarrow>
              (case PaymentStatus_attr ''PAID'' of
                 None \<Rightarrow> (s, Inl InternalServerError)
               | Some paid \<Rightarrow> webhook_settle s order_id pay_id payment paid))
      | PaymentFailed order_id \<Rightarrow>
          (case find (\<lambda>p. p_razorpay_order_id p = order_id) (payments s) of
             None \<Rightarrow> (s, Inr [])
           | Some payment \<Rightarrow>
               (s\<lparr>payments := update_first (\<lambda>p. p_razorpay_order_id p = order_id)
                      (\<lambda>p. p\<lparr>p_payment_status := status_value FAILED\<rparr>) (payments s)\<rparr>,
                Inr []))
      | OtherEvent \<Rightarrow> (s, Inr []))"

definition combine :: "int \<Rightarrow> int \<Rightarrow> int" where
  \<comment> \<open>\<open>datetime.combine(date, time)\<close>\<close>
  "combine d t = d * 86400000000 + t"

definition hours :: "int \<Rightarrow> int" where
  \<comment> \<open>\<open>timedelta(hours=n)\<close>\<close>
  "hours n = n * 3600000000"

record RefundRequest =
  rr_order_id :: string
  rr_reason :: string
  rr_refund_amount :: "int option"

definition refund_amount :: "RefundRequest \<Rightarrow> AppointmentPayment \<Rightarrow> int" where
  \<comment> \<open>\<open>request.refund_amount or payment.total_amount\<close>\<close>
  "refund_amount request payment =
     (case rr_refund_amount request of
        None \<Rightarrow> p_total_amount payment
      | Some a \<Rightarrow> if a = 0 then p_total_amount payment else a)"

definition refund_paid ::
  "gateway \<Rightarrow> db \<Rightarrow> int \<Rightarrow> RefundRequest \<Rightarrow> int \<Rightarrow> int \<Rightarrow> Appointment \<Rightarrow> AppointmentPayment
     \<Rightarrow> PaymentStatus \<Rightarrow> db \<times> (error + task list)" where
  \<comment> \<open>payments.py 841 to 910, given the value of \<open>PaymentStatus.PAID\<close>; the column
      \<open>cancellation_reason\<close> holds 100 characters\<close>
  "refund_paid g s current_user_id request now stamp appointment payment paid =
     (if p_payment_status payment \<noteq> status_value paid then (s, Inl NoPaymentToRefund)
      else if combine (a_date appointment) (a_time appointment) - now < hours 24
      then (s, Inl RefundWindowClosed)
      else
        (case payment_refund g (p_razorpay_payment_id payment)
                (refund_amount request payment * 100) of
           BadRequestError \<Rightarrow> (s, Inl RefundFailed)
         | OtherError \<Rightarrow> (s, Inl InternalServerError)
         | Refunded refund_id \<Rightarrow>
             if 100 < length (rr_reason request) then (s, Inl InternalServerError)
             else
               (s\<lparr>payments := update_first
                      (\<lambda>p. p_appointment_id p = rr_order_id request)
                      (\<lambda>p. p\<lparr>p_payment_status := status_value REFUNDED\<rparr>) (payments s),
                   appointments := update_first
                      (\<lambda>a. a_id a = rr_order_id request \<and> a_user_id a = current_user_id)
                      (\<lambda>a. a\<lparr>a_status := ''cancelled'',
                              a_cancellation_reason := Some (rr_reason request),
                              a_cancelled_at := Some stamp\<rparr>) (appointments s)\<rparr>,
                Inr [DebitTask (a_doctor_id appointment) (p_doctor_share payment)
                       (rr_order_id request)])))"

definition initiate_refund ::
  "gateway \<Rightarrow> db \<Rightarrow> int \<Rightarrow> RefundRequest \<Rightarrow> int \<Rightarrow> int \<Rightarrow> db \<times> (error + task list)" where
  \<comment> \<open>payments.py, the appointment branch; \<open>now\<close> is the clock of the policy check and
      \<open>stamp\<close> the later one written into the rows. Line 841 reads \<open>PaymentStatus.PAID\<close>
      once a payment is found, outside any \<open>try\<close>\<close>
  "initiate_refund g s current_user_id request now stamp =
     (case find (\<lambda>a. a_id a = rr_order_id request \<and> a_user_id a = current_user_id)
             (appointments s) of
        None \<Rightarrow> (s, Inl AppointmentNotFound)
      | Some appointment \<Rightarrow>
         (case find (\<lambda>p. p_appointment_id p = rr_order_id request) (payments s) of
            None \<Rightarrow> (s, Inl NoPaymentToRefund)
          | Some payment \<Rightarrow>
             (case PaymentStatus_attr ''PAID'' of
                None \<Rightarrow> (s, Inl InternalServerError)
              | Some paid \<Rightarrow>
                  refund_paid g s current_user_id request now stamp appointment payment paid)))"

section \<open>Consultation completion\<close>

definition complete_appointment :: "db \<Rightarrow> int \<Rightarrow> string \<Rightarrow> bool \<Rightarrow> db \<times> (error + int)" where
  \<comment> \<open>doctor_management.py; the flag says whether a diagnosis or prescription is given,
      the answer is \<open>fee_credited\<close>. Everything is written by the one commit at the end,
      and an exception of that commit is answered with 500\<close>
  "complete_appointment s current_user_id appointment_id with_prescription =
     (case find (\<lambda>d. d_user_id d = current_user_id) (doctors s) of
        None \<Rightarrow> (s, Inl DoctorProfileNotFound)
      | Some doctor \<Rightarrow>
         (case find (\<lambda>a. a_id a = appointment_id \<and> a_doctor_id a = d_id doctor)
                 (appointments s) of
            None \<Rightarrow> (s, Inl AppointmentNotFound)
          | Some appointment \<Rightarrow>
             (let s1 = s\<lparr>appointments := update_first
                           (\<lambda>a. a_id a = appointment_id \<and> a_doctor_id a = d_id doctor)
                           (\<lambda>a. a\<lparr>a_status := ''completed''\<rparr>) (appointments s),
                         doctors := update_first (\<lambda>d. d_user_id d = current_user_id)
                           (\<lambda>d. d\<lparr>d_total_consultations := d_total_consultations d + 1\<rparr>)
                           (doctors s)\<rparr>;
                  s2 = (if with_prescription then insert_prescription s1 (a_id appointment)
                        else Inr s1)
              in case find (\<lambda>w. w_doctor_id w = d_id doctor) (wallets s) of
                   None \<Rightarrow>
                    (case s2 of
                       Inl e \<Rightarrow> (s, Inl InternalServerError)
                     | Inr s3 \<Rightarrow> (s3, Inr 0))
                 | Some wallet \<Rightarrow>
                    (case and_then s2 (\<lambda>s3. insert_wallet_transaction
                              (s3\<lparr>wallets := update_first (\<lambda>w. w_doctor_id w = d_id doctor)
                                    (\<lambda>w. w\<lparr>w_current_balance :=
                                              w_current_balance w + d_consultation_fee doctor,
                                            w_total_earned :=
                                              w_total_earned w + d_consultation_fee doctor\<rparr>)
                                    (wallets s3)\<rparr>)
                              \<lparr>t_doctor_id = None, t_wallet_id = w_id wallet,
                               t_appointment_id = None,
                               t_amount = d_consultation_fee doctor,
                               t_transaction_type = ''credit'',
                               t_balance_before = w_current_balance wallet,
                               t_balance_after =
                                 w_current_balance wallet + d_consultation_fee doctor\<rparr>) of
                       Inl e \<Rightarrow> (s, Inl InternalServerError)
                     | Inr s4 \<Rightarrow> (s4, Inr (d_consultation_fee doctor))))))"

section \<open>Booking\<close>

function str_digits :: "int \<Rightarrow> string" where
  "str_digits n =
     (if n < 10 then [''0123456789'' ! nat n]
      else str_digits (n div 10) @ [''0123456789'' ! nat (n mod 10)])"
  by pat_completeness auto
termination
  by (relation "measure nat") auto

declare str_digits.simps [simp del]

definition str_int :: "int \<Rightarrow> string" where
  \<comment> \<open>\<open>str(i)\<close> of a Python \<open>int\<close>\<close>
  "str_int i = (if i < 0 then ''-'' @ str_digits (- i) else str_digits i)"

definition generate_booking_id :: "int \<Rightarrow> string" where
  \<comment> \<open>the argument is the value of \<open>secrets.randbelow(900000)\<close>\<close>
  "generate_booking_id r = ''APT'' @ str_int (r + 100000)"

record AppointmentBookRequest =
  br_user_id :: int
  br_doctor_id :: int
  br_slot_id :: int
  br_date :: int
  br_payment_method :: PaymentMethod

text \<open>
  What one call of \<open>book_appointment\<close> reads from outside the store: the clock, once per
  \<open>datetime.now()\<close> in program order, the random draw of the booking id, and the
  gateway's answer to \<open>order.create\<close> (\<open>None\<close> when the call raises).
\<close>

record booking_env =
  now_past_check :: int
  now_lead_check :: int
  now_mock_order :: int
  now_next_slot :: int
  randbelow :: int
  order_create :: "string option"

record AppointmentResponse =
  ar_appointment_id :: string
  ar_status :: string

definition AppointmentResponse_required :: "string list" where
  \<comment> \<open>the required fields of the response model\<close>
  "AppointmentResponse_required = [''appointment_id'', ''status'', ''details'']"

definition response_data_keys :: "PaymentMethod \<Rightarrow> string list" where
  \<comment> \<open>the keys of \<open>response_data\<close> when the response model is built\<close>
  "response_data_keys m =
     [''appointment_id'', ''status'', ''message'', ''payment_required''] @
     (if m = ADVANCE then [''next_step'', ''payment_details''] else [''appointment_details''])"

definition pydantic_model :: "string list \<Rightarrow> string list \<Rightarrow> error + unit" where
  \<comment> \<open>a required field without a value is a validation error\<close>
  "pydantic_model required keys =
     (case find (\<lambda>f. f \<notin> set keys) required of
        Some f \<Rightarrow> Inl ValidationError
      | None \<Rightarrow> Inr ())"

definition Appointment_kwargs :: "string list" where
  \<comment> \<open>the keywords of \<open>Appointment(...)\<close> at appointments.py 653\<close>
  "Appointment_kwargs =
     [''id'', ''user_id'', ''doctor_id'', ''slot_id'', ''date'', ''time'', ''reason'',
      ''symptoms'', ''status'', ''is_emergency'', ''consultation_type'', ''total_amount'',
      ''platform_fee'', ''doctor_share'']"

definition slot_before :: "DoctorSlot \<Rightarrow> DoctorSlot \<Rightarrow> bool" where
  "slot_before x y =
     (s_date x < s_date y \<or> (s_date x = s_date y \<and> s_start_time x < s_start_time y))"

definition earliest_slot :: "DoctorSlot list \<Rightarrow> DoctorSlot option" where
  \<comment> \<open>\<open>order_by(DoctorSlot.date, DoctorSlot.start_time).first()\<close>\<close>
  "earliest_slot xs =
     (case xs of [] \<Rightarrow> None
      | x # ys \<Rightarrow> Some (foldl (\<lambda>m y. if slot_before y m then y else m) x ys))"

definition update_doctor_next_available_slot :: "db \<Rightarrow> db \<Rightarrow> int \<Rightarrow> int \<Rightarrow> db" where
  \<comment> \<open>the query runs on the database, which without autoflush has not seen the
      pending changes; the doctor row of the session is the one changed\<close>
  "update_doctor_next_available_slot database pending doctor_id now =
     (let next_slot = earliest_slot (filter
            (\<lambda>x. s_doctor_id x = doctor_id \<and> now div 86400000000 \<le> s_date x \<and> \<not> s_is_booked x)
            (slots database))
      in case find (\<lambda>d. d_id d = doctor_id) (doctors pending) of
           None \<Rightarrow> pending
         | Some doctor \<Rightarrow>
             pending\<lparr>doctors := update_first (\<lambda>d. d_id d = doctor_id)
                  (\<lambda>d. d\<lparr>d_next_available_slot :=
                          (case next_slot of
                             None \<Rightarrow> None
                           | Some x \<Rightarrow> Some (combine (s_date x) (s_start_time x)))\<rparr>)
                  (doctors pending)\<rparr>)"

definition daily_appointments :: "db \<Rightarrow> AppointmentBookRequest \<Rightarrow> nat" where
  "daily_appointments s request =
     length (filter
       (\<lambda>a. a_doctor_id a = br_doctor_id request \<and> a_date a = br_date request \<and>
            (a_status a = ''confirmed'' \<or> a_status a = ''payment_pending''))
       (appointments s))"

definition max_daily_appointments :: nat where
  "max_daily_appointments = 20"

definition store_booking ::
  "db \<Rightarrow> AppointmentBookRequest \<Rightarrow> booking_env \<Rightarrow> Doctor \<Rightarrow> DoctorSlot \<Rightarrow> string
     \<Rightarrow> breakdown \<Rightarrow> string option \<Rightarrow> string \<Rightarrow> db \<times> (error + AppointmentResponse)" where
  \<comment> \<open>appointments.py 669 to 817, once the appointment object exists: the rows are
      written by the commit inside \<open>update_doctor_next_available_slot\<close>; the new
      appointment has no \<open>consultation_fee\<close>; the response model is built last\<close>
  "store_booking s request env doctor slot booking_id breakdown razorpay_order
       appointment_status =
     (let pending = update_doctor_next_available_slot s
            (s\<lparr>slots := update_first (\<lambda>x. s_id x = br_slot_id request)
                            (\<lambda>x. x\<lparr>s_is_booked := True\<rparr>) (slots s),
                doctors := update_first
                            (\<lambda>d. d_id d = br_doctor_id request \<and> d_is_available d)
                            (\<lambda>d. d\<lparr>d_total_consultations := d_total_consultations d + 1\<rparr>)
                            (doctors s)\<rparr>)
            (d_id doctor) (now_next_slot env);
          flushed =
            and_then (insert_appointment pending
               \<lparr>a_id = booking_id, a_user_id = br_user_id request,
                a_doctor_id = br_doctor_id request, a_slot_id = br_slot_id request,
                a_date = br_date request, a_time = s_start_time slot,
                a_status = appointment_status, a_consultation_fee = None,
                a_cancellation_reason = None, a_cancelled_at = None\<rparr>)
            (\<lambda>s1. and_then (insert_payment s1
               \<lparr>p_appointment_id = booking_id,
                p_total_amount = bd_total_amount breakdown,
                p_platform_fee = bd_platform_fee breakdown,
                p_doctor_share = bd_doctor_share breakdown,
                p_razorpay_order_id = razorpay_order,
                p_razorpay_payment_id = None, p_razorpay_signature = None,
                p_payment_status = status_value PENDING\<rparr>)
            (\<lambda>s2. and_then
               (if br_payment_method request = PAY_AT_CLINIC
                   \<and> find (\<lambda>w. w_doctor_id w = d_id doctor) (wallets s) = None
                then insert_wallet s2
                       \<lparr>w_id = next_wallet_id (wallets s2), w_doctor_id = d_id doctor,
                        w_current_balance = 0, w_total_earned = 0,
                        w_total_withdrawn = 0, w_pending_withdrawal = 0\<rparr>
                else Inr s2)
            (\<lambda>s3. if br_payment_method request = ADVANCE
                   then insert_qr_code s3 booking_id else Inr s3)))
      in case flushed of
           Inl e \<Rightarrow> (s, Inl BookingFailed)
         | Inr s' \<Rightarrow>
            (case pydantic_model AppointmentResponse_required
                    (response_data_keys (br_payment_method request)) of
               Inl e \<Rightarrow> (s', Inl BookingFailed)
             | Inr u \<Rightarrow>
                 (s', Inr \<lparr>ar_appointment_id = booking_id, ar_status = appointment_status\<rparr>)))"

definition create_booking ::
  "db \<Rightarrow> AppointmentBookRequest \<Rightarrow> booking_env \<Rightarrow> Doctor \<Rightarrow> DoctorSlot
     \<Rightarrow> db \<times> (error + AppointmentResponse)" where
  \<comment> \<open>the \<open>try\<close> block of \<open>book_appointment\<close>: every exception in it is answered with
      500 after a rollback\<close>
  "create_booking s request env doctor slot =
     (let booking_id = generate_booking_id (randbelow env);
          breakdown = calculate_payment_breakdown (d_consultation_fee doctor);
          razorpay_order =
            (if br_payment_method request = ADVANCE
             then Some (case order_create env of
                          Some order_id \<Rightarrow> order_id
                        | None \<Rightarrow> ''order_'' @ booking_id @ ''_'' @
                                   str_int (now_mock_order env div 1000000))
             else None);
          appointment_status =
            (if br_payment_method request = ADVANCE then ''payment_pending'' else ''confirmed'')
      in case declarative_constructor Appointment_attrs Appointment_kwargs of
           Inl e \<Rightarrow> (s, Inl BookingFailed)
         | Inr u \<Rightarrow>
             store_booking s request env doctor slot booking_id breakdown razorpay_order
               appointment_status)"

definition book_appointment ::
  "db \<Rightarrow> AppointmentBookRequest \<Rightarrow> booking_env \<Rightarrow> db \<times> (error + AppointmentResponse)" where
  \<comment> \<open>appointments.py; validations 1 to 7 in the source's order, then the \<open>try\<close> block\<close>
  "book_appointment s request env =
     (case find (\<lambda>u. u = br_user_id request) (users s) of
        None \<Rightarrow> (s, Inl UserNotFound)
      | Some user \<Rightarrow>
     (case find (\<lambda>d. d_id d = br_doctor_id request \<and> d_is_available d) (doctors s) of
        None \<Rightarrow> (s, Inl DoctorNotFound)
      | Some doctor \<Rightarrow>
     (case find (\<lambda>x. s_id x = br_slot_id request) (slots s) of
        None \<Rightarrow> (s, Inl SlotNotFound)
      | Some slot \<Rightarrow>
          if s_is_booked slot then (s, Inl SlotAlreadyBooked)
          else if s_doctor_id slot \<noteq> br_doctor_id request then (s, Inl SlotWrongDoctor)
          else if s_date slot \<noteq> br_date request then (s, Inl SlotWrongDate)
          else if combine (br_date request) (s_start_time slot) \<le> now_past_check env
          then (s, Inl PastAppointment)
          else if combine (br_date request) (s_start_time slot) - now_lead_check env < hours 1
          then (s, Inl BelowMinimumLeadTime)
          else if max_daily_appointments \<le> daily_appointments s request
          then (s, Inl DailyCapReached)
          else create_booking s request env doctor slot)))"

section \<open>Concrete stores\<close>

text \<open>
  One doctor charging 1000 rupees, with the empty wallet that registration creates, one
  free slot at 10:00 on day 20000, and a patient.
\<close>

definition demo_doctor :: Doctor where
  "demo_doctor = \<lparr>d_id = 7, d_user_id = 2, d_is_available = True, d_consultation_fee = 1000,
     d_total_consultations = 0, d_next_available_slot = None\<rparr>"

definition demo_slot :: DoctorSlot where
  "demo_slot = \<lparr>s_id = 3, s_doctor_id = 7, s_date = 20000, s_start_time = 36000000000,
     s_end_time = 37800000000, s_is_booked = False, s_is_blocked = False\<rparr>"

definition fresh_wallet :: DoctorWallet where
  "fresh_wallet = \<lparr>w_id = 1, w_doctor_id = 7, w_current_balance = 0, w_total_earned = 0,
     w_total_withdrawn = 0, w_pending_withdrawal = 0\<rparr>"

definition demo_db :: db where
  "demo_db = \<lparr>users = [1, 2], doctors = [demo_doctor], slots = [demo_slot], appointments = [],
     payments = [], wallets = [fresh_wallet], wallet_transactions = [], prescriptions = [],
     qr_codes = []\<rparr>"

definition demo_request :: "PaymentMethod \<Rightarrow> AppointmentBookRequest" where
  "demo_request m = \<lparr>br_user_id = 1, br_doctor_id = 7, br_slot_id = 3, br_date = 20000,
     br_payment_method = m\<rparr>"

definition minutes_before :: "int \<Rightarrow> booking_env" where
  \<comment> \<open>every clock reading \<open>m\<close> minutes before the slot starts\<close>
  "minutes_before m =
     (let t = combine 20000 36000000000 - m * 60000000
      in \<lparr>now_past_check = t, now_lead_check = t, now_mock_order = t, now_next_slot = t,
          randbelow = 23456, order_create = Some ''order_demo''\<rparr>)"


definition busy_day :: "string \<Rightarrow> db" where
  \<comment> \<open>twenty appointments of the doctor on day 20000, all in the given status\<close>
  "busy_day st = demo_db\<lparr>appointments :=
     map (\<lambda>i. \<lparr>a_id = generate_booking_id i, a_user_id = 1, a_doctor_id = 7,
               a_slot_id = 100 + i, a_date = 20000, a_time = 0, a_status = st,
               a_consultation_fee = Some 1000,
               a_cancellation_reason = None, a_cancelled_at = None\<rparr>) [0..19]\<rparr>"

definition non_cancelled_appointments :: "db \<Rightarrow> int \<Rightarrow> int \<Rightarrow> nat" where
  \<comment> \<open>the count the capacity claim speaks of\<close>
  "non_cancelled_appointments s doctor_id d =
     length (filter (\<lambda>a. a_doctor_id a = doctor_id \<and> a_date a = d \<and> a_status a \<noteq> ''cancelled'')
       (appointments s))"

definition demo_gateway :: gateway where
  "demo_gateway = \<lparr>hmac_sha256_hex = (\<lambda>key msg. key @ '':'' @ msg),
     RAZORPAY_KEY_SECRET = ''xxx'', RAZORPAY_WEBHOOK_SECRET = ''whsec_xxx'',
     payment_refund = (\<lambda>payment_id amount. Refunded ''rfnd_demo'')\<rparr>"

text \<open>
  No endpoint can create an appointment or a payment record, so the stores that hold
  them are seeded: an appointment on the demo slot with its payment record, once with
  the status pending that booking would write, once with the status paid.
\<close>

definition seeded_appointment :: "string \<Rightarrow> Appointment" where
  "seeded_appointment st =
     \<lparr>a_id = ''APT123456'', a_user_id = 1, a_doctor_id = 7, a_slot_id = 3, a_date = 20000,
      a_time = 36000000000, a_status = st, a_consultation_fee = Some 1000,
      a_cancellation_reason = None, a_cancelled_at = None\<rparr>"

definition seeded_payment :: "string \<Rightarrow> AppointmentPayment" where
  "seeded_payment st =
     \<lparr>p_appointment_id = ''APT123456'', p_total_amount = 1000, p_platform_fee = 200,
      p_doctor_share = 800, p_razorpay_order_id = Some ''order_demo'',
      p_razorpay_payment_id = None, p_razorpay_signature = None, p_payment_status = st\<rparr>"

definition pending_db :: db where
  "pending_db = demo_db
     \<lparr>slots := [demo_slot\<lparr>s_is_booked := True\<rparr>],
      appointments := [seeded_appointment ''payment_pending''],
      payments := [seeded_payment ''pending'']\<rparr>"

definition paid_db :: db where
  "paid_db = demo_db
     \<lparr>slots := [demo_slot\<lparr>s_is_booked := True\<rparr>],
      appointments := [seeded_appointment ''confirmed''],
      payments := [seeded_payment ''paid'']\<rparr>"

definition funded_db :: db where
  \<comment> \<open>the paid store with 800 rupees on the doctor's wallet\<close>
  "funded_db = paid_db
     \<lparr>wallets := [fresh_wallet\<lparr>w_current_balance := 800, w_total_earned := 800\<rparr>]\<rparr>"

definition demo_verify_request :: VerifyPaymentRequest where
  \<comment> \<open>validly signed under the demo gateway\<close>
  "demo_verify_request =
     \<lparr>vr_razorpay_order_id = ''order_demo'', vr_razorpay_payment_id = ''pay_demo'',
      vr_razorpay_signature = ''xxx:order_demo|pay_demo'', vr_order_id = ''APT123456''\<rparr>"

definition demo_refund_request :: RefundRequest where
  "demo_refund_request =
     \<lparr>rr_order_id = ''APT123456'', rr_reason = ''cannot attend'', rr_refund_amount = None\<rparr>"

definition two_days_before :: int where
  "two_days_before = combine 19998 36000000000"


section \<open>Fee split\<close>

text \<open>
  The two literals are 53-bit significands within half a unit of \<open>2 ^ 55 / 5\<close> and
  of \<open>4 * 2 ^ 53 / 5\<close>, that is, the doubles nearest to one fifth and four fifths.
  For a fee below \<open>2 ^ 31\<close> the rounded float product truncates to the exact
  quotient: \<open>int(n * 0.20)\<close> is \<open>n div 5\<close> and \<open>int(n * 0.80)\<close> is \<open>4 * n div 5\<close>.
  So the booking-time breakdown always adds up to the fee, and the split of a new
  payment record adds up to it only for multiples of 5.
\<close>

lemma literals_are_nearest_doubles:
  "bitlen (fst PLATFORM_FEE_PERCENTAGE) = 53
   \<and> 2 * \<bar>5 * fst PLATFORM_FEE_PERCENTAGE - 1 * 2 ^ 55\<bar> < 5
   \<and> bitlen (fst DOCTOR_SHARE_PERCENTAGE) = 53
   \<and> 2 * \<bar>5 * fst DOCTOR_SHARE_PERCENTAGE - 4 * 2 ^ 53\<bar> < 5"
  by code_simp

lemma round_shift_between:
  "a div 2 ^ k \<le> round_shift a k \<and> round_shift a k \<le> a div 2 ^ k + 1"
  by (simp add: round_shift_def Let_def)

lemma div_lower:
  assumes "(0::int) < K" "c * K \<le> m"
  shows "c \<le> m div K"
proof -
  have "(c * K) div K \<le> m div K" using assms by (intro zdiv_mono1) auto
  then show ?thesis using assms by simp
qed

lemma div_upper:
  assumes "(0::int) < K" "m < c * K"
  shows "m div K < c"
proof (rule ccontr)
  assume "\<not> m div K < c"
  then have "c * K \<le> (m div K) * K" using assms by (intro mult_right_mono) auto
  also have "\<dots> \<le> m"
  proof -
    have "m = (m div K) * K + m mod K" by simp
    moreover have "0 \<le> m mod K" using assms by simp
    ultimately show ?thesis by linarith
  qed
  finally show False using assms by simp
qed

lemma div_between:
  assumes "(0::int) < D" "T * D \<le> q" "q < (T + 1) * D"
  shows "q div D = T"
  using div_lower [OF assms(1,2)] div_upper [OF assms(1,3)] by simp

lemma trunc_of_rounded:
  assumes k: "k \<le> E" and lo: "T * 2 ^ E \<le> m" and hi: "m + 2 ^ k < (T + 1) * 2 ^ E"
  shows "round_shift m k div 2 ^ (E - k) = T"
proof -
  define K :: int where "K = 2 ^ k"
  define D :: int where "D = 2 ^ (E - k)"
  have KD: "D * K = 2 ^ E" using k by (simp add: K_def D_def flip: power_add)
  have K: "0 < K" and D: "0 < D" by (simp_all add: K_def D_def)
  have "(T * D) * K \<le> m" using lo KD by (simp add: mult.assoc)
  then have l: "T * D \<le> m div K" using K by (intro div_lower) 
  have "((T + 1) * D - 1) * K = (T + 1) * (D * K) - K"
    by (simp add: algebra_simps)
  then have "m < ((T + 1) * D - 1) * K"
    using hi unfolding KD by (simp add: K_def)
  then have u: "m div K < (T + 1) * D - 1" using K by (intro div_upper)
  have "T * D \<le> round_shift m k" "round_shift m k < (T + 1) * D"
    using round_shift_between [of m k] l u by (simp_all add: K_def)
  then show ?thesis unfolding D_def [symmetric] using D by (intro div_between)
qed

lemma py_int_round53:
  assumes T: "0 \<le> T" and lo: "T * 2 ^ E \<le> m" and b: "m < 2 ^ (53 + E)"
    and hi: "m + 2 ^ nat (bitlen m - 53) < (T + 1) * 2 ^ E"
  shows "py_int (round53 (m, - int E)) = T"
proof -
  have "0 \<le> T * 2 ^ E" using T by simp
  with lo have m0: "0 \<le> m" by linarith
  have len: "bitlen m \<le> 53 + int E"
    using b by (simp add: bitlen_le_iff_power nat_add_distrib)
  show ?thesis
  proof (cases "bitlen m - 53 \<le> 0")
    case True
    then have r: "round53 (m, - int E) = (m, - int E)"
      using m0 by (simp add: round53_def)
    have "(0::int) < 2 ^ nat (bitlen m - 53)" by simp
    with hi have "m < (T + 1) * 2 ^ E" by linarith
    with lo have d: "m div 2 ^ E = T" by (intro div_between) auto
    show ?thesis
    proof (cases "E = 0")
      case True
      with d r show ?thesis by (simp add: py_int_def)
    next
      case False
      with d m0 r show ?thesis
        by (cases "m = 0") (auto simp: py_int_def Let_def sgn_if)
    qed
  next
    case False
    define k where "k = nat (bitlen m - 53)"
    have k: "0 < k" "k \<le> E" "int k = bitlen m - 53"
      using False len by (simp_all add: k_def)
    have mpos: "0 < m" using False m0 by (cases "m = 0") auto
    have r: "round53 (m, - int E) = (round_shift m k, int k - int E)"
      using False mpos k by (simp add: round53_def Let_def k_def)
    have q: "round_shift m k div 2 ^ (E - k) = T"
      using k(2) lo hi unfolding k_def [symmetric] by (rule trunc_of_rounded)
    have "0 \<le> m div 2 ^ k"
      using mpos by (simp add: pos_imp_zdiv_nonneg_iff)
    with round_shift_between [of m k] have q0: "0 \<le> round_shift m k" by linarith
    show ?thesis
    proof (cases "k = E")
      case True
      with q r show ?thesis by (simp add: py_int_def)
    next
      case False
      with k have "int k - int E < 0" "nat (int E - int k) = E - k" by auto
      with q q0 r show ?thesis
        by (cases "round_shift m k = 0") (auto simp: py_int_def Let_def sgn_if)
    qed
  qed
qed

lemma float_of_small_int:
  assumes "0 \<le> n" "n < 2 ^ 31"
  shows "float_of_int n = (n, 0)"
proof -
  have "n < 2 ^ nat 53" using assms by simp
  then have "bitlen n \<le> 53" by (simp add: bitlen_le_iff_power)
  then show ?thesis using assms by (simp add: float_of_int_def round53_def)
qed

lemma rounding_unit_small:
  assumes "0 \<le> n" "n < 2 ^ 31"
  shows "(2::int) ^ nat (bitlen (n * 7205759403792794) - 53) \<le> 2 ^ 31"
proof -
  have "n * 7205759403792794 < 2 ^ nat 84" using assms by simp
  then have "bitlen (n * 7205759403792794) \<le> 84" by (simp add: bitlen_le_iff_power)
  then have "nat (bitlen (n * 7205759403792794) - 53) \<le> 31" by simp
  then show ?thesis by (intro power_increasing) auto
qed

lemma platform_fee_is_floor:
  assumes n: "0 \<le> n" "n < 2 ^ 31"
  shows "py_int (float_mul (float_of_int n) PLATFORM_FEE_PERCENTAGE) = n div 5"
proof -
  define T where "T = n div 5"
  define r where "r = n mod 5"
  have nr: "n = 5 * T + r" "0 \<le> r" "r \<le> 4" "0 \<le> T"
    using n by (simp_all add: T_def r_def pos_imp_zdiv_nonneg_iff)
  let ?m = "n * 7205759403792794"
  have u: "(2::int) ^ nat (bitlen ?m - 53) \<le> 2147483648"
    using rounding_unit_small [OF n] by simp
  have "py_int (round53 (?m, - int 55)) = T"
  proof (rule py_int_round53)
    show "0 \<le> T" by (rule nr)
    show "T * 2 ^ 55 \<le> ?m" using nr by simp
    show "?m < 2 ^ (53 + 55)" using n by simp
    show "?m + 2 ^ nat (bitlen ?m - 53) < (T + 1) * 2 ^ 55"
      using nr n u by simp
  qed
  then show ?thesis
    by (simp add: float_mul_def float_of_small_int [OF n] PLATFORM_FEE_PERCENTAGE_def T_def)
qed

lemma doctor_share_by_float:
  assumes n: "0 \<le> n" "n < 2 ^ 31"
  shows "py_int (float_mul (float_of_int n) DOCTOR_SHARE_PERCENTAGE) = (4 * n) div 5"
proof -
  define T where "T = (4 * n) div 5"
  define r where "r = (4 * n) mod 5"
  have nr: "4 * n = 5 * T + r" "0 \<le> r" "r \<le> 4" "0 \<le> T"
    using n by (simp_all add: T_def r_def pos_imp_zdiv_nonneg_iff)
  let ?m = "n * 7205759403792794"
  have u: "(2::int) ^ nat (bitlen ?m - 53) \<le> 2147483648"
    using rounding_unit_small [OF n] by simp
  have "py_int (round53 (?m, - int 53)) = T"
  proof (rule py_int_round53)
    show "0 \<le> T" by (rule nr)
    show "T * 2 ^ 53 \<le> ?m" using nr by simp
    show "?m < 2 ^ (53 + 53)" using n by simp
    show "?m + 2 ^ nat (bitlen ?m - 53) < (T + 1) * 2 ^ 53"
      using nr n u by simp
  qed
  then show ?thesis
    by (simp add: float_mul_def float_of_small_int [OF n] DOCTOR_SHARE_PERCENTAGE_def T_def)
qed

lemma booking_split_exact:
  assumes "0 \<le> n" "n < 2 ^ 31"
  shows "bd_platform_fee (calculate_payment_breakdown n) = n div 5"
    and "bd_doctor_share (calculate_payment_breakdown n) = n - n div 5"
    and "bd_platform_fee (calculate_payment_breakdown n)
           + bd_doctor_share (calculate_payment_breakdown n) = n"
  using platform_fee_is_floor [OF assms] by (simp_all add: calculate_payment_breakdown_def Let_def)

lemma fifths: "n div 5 + (4 * n) div 5 = (if 5 dvd n then n else n - 1)" for n :: int
proof -
  define T where "T = n div 5"
  define r where "r = n mod 5"
  have n: "n = 5 * T + r" by (simp add: T_def r_def)
  have r: "r = 0 \<or> r = 1 \<or> r = 2 \<or> r = 3 \<or> r = 4"
  proof -
    have "0 \<le> r" "r < 5" by (simp_all add: r_def)
    then show ?thesis by linarith
  qed
  have d: "5 dvd n \<longleftrightarrow> r = 0" by (simp add: r_def dvd_eq_mod_eq_0)
  have "4 * n = 5 * (4 * T) + 4 * r" using n by simp
  then have q: "(4 * n) div 5 = 4 * T + (4 * r) div 5"
    by (simp only: div_mult_self4) 
  from r show ?thesis
    unfolding d q T_def [symmetric] using n by (elim disjE) simp_all
qed

lemma order_split_sum:
  assumes "0 \<le> n" "n < 2 ^ 31"
  shows "bd_platform_fee (order_payment_split n) + bd_doctor_share (order_payment_split n)
           = (if 5 dvd n then n else n - 1)"
proof -
  have "bd_platform_fee (order_payment_split n) = n div 5"
    using platform_fee_is_floor [OF assms] by (simp add: order_payment_split_def)
  moreover have "bd_doctor_share (order_payment_split n) = (4 * n) div 5"
    using doctor_share_by_float [OF assms] by (simp add: order_payment_split_def)
  ultimately show ?thesis by (simp only: fifths)
qed

text \<open>
  C2. The claim wants \<open>platform_fee = floor(total * 0.20)\<close> and
  \<open>doctor_share = total - platform_fee\<close> at both sites. For a fee of 999 rupees the
  booking-time breakdown is 199 + 800, while the payment-order site computes the share
  as \<open>int(999 * 0.80) = 799\<close>, so its two parts add up to 998.
\<close>

theorem order_split_loses_a_rupee:
  "calculate_payment_breakdown 999 =
     \<lparr>bd_total_amount = 999, bd_platform_fee = 199, bd_doctor_share = 800\<rparr>
   \<and> order_payment_split 999 =
     \<lparr>bd_total_amount = 999, bd_platform_fee = 199, bd_doctor_share = 799\<rparr>"
  by code_simp

section \<open>What cannot happen\<close>

text \<open>
  Three facts about the declarations decide most of what follows: the enum has no
  member PAID, the appointment class has no attribute for the amounts that booking
  passes, and a wallet transaction without a doctor is refused.
\<close>

lemma paid_is_undeclared: "PaymentStatus_attr ''PAID'' = None"
  by code_simp

lemma appointment_constructor_raises:
  "declarative_constructor Appointment_attrs Appointment_kwargs = Inl TypeError"
  by code_simp

lemma insert_without_doctor:
  "t_doctor_id t = None \<Longrightarrow> insert_wallet_transaction s t = Inl IntegrityError"
  by (simp add: insert_wallet_transaction_def)






lemma create_booking_fails: "create_booking s request env doctor slot = (s, Inl BookingFailed)"
  by (simp add: create_booking_def Let_def appointment_constructor_raises)


lemma verify_never_settles:
  "fst (verify_payment g s u request) = s \<and> isl (snd (verify_payment g s u request))"
  by (simp add: verify_payment_def paid_is_undeclared split: option.splits)

lemma captured_webhook_raises:
  assumes "hmac_sha256_hex g (RAZORPAY_WEBHOOK_SECRET g) body = signature"
      and "find (\<lambda>p. p_razorpay_order_id p = order_id) (payments s) = Some payment"
  shows "razorpay_webhook g s body signature (PaymentCaptured order_id pay_id)
           = (s, Inl InternalServerError)"
  using assms by (simp add: razorpay_webhook_def paid_is_undeclared)

lemma refund_raises:
  assumes "find (\<lambda>a. a_id a = rr_order_id request \<and> a_user_id a = u) (appointments s)
             = Some appointment"
      and "find (\<lambda>p. p_appointment_id p = rr_order_id request) (payments s) = Some payment"
  shows "initiate_refund g s u request now stamp = (s, Inl InternalServerError)"
  using assms by (simp add: initiate_refund_def paid_is_undeclared)

lemma refund_never_commits:
  "fst (initiate_refund g s u request now stamp) = s
   \<and> isl (snd (initiate_refund g s u request now stamp))"
  by (simp add: initiate_refund_def paid_is_undeclared split: option.splits)

lemma completion_with_wallet_fails:
  assumes "find (\<lambda>d. d_user_id d = u) (doctors s) = Some doctor"
      and "find (\<lambda>a. a_id a = apt_id \<and> a_doctor_id a = d_id doctor) (appointments s)
             = Some appointment"
      and "find (\<lambda>w. w_doctor_id w = d_id doctor) (wallets s) = Some wallet"
  shows "complete_appointment s u apt_id with_prescription = (s, Inl InternalServerError)"
  using assms
  by (simp add: complete_appointment_def Let_def and_then_def insert_without_doctor
        split: sum.splits)

lemma completion_without_wallet:
  assumes "find (\<lambda>d. d_user_id d = u) (doctors s) = Some doctor"
      and "find (\<lambda>a. a_id a = apt_id \<and> a_doctor_id a = d_id doctor) (appointments s)
             = Some appointment"
      and "find (\<lambda>w. w_doctor_id w = d_id doctor) (wallets s) = None"
  shows "complete_appointment s u apt_id False =
           (s\<lparr>appointments := update_first
                 (\<lambda>a. a_id a = apt_id \<and> a_doctor_id a = d_id doctor)
                 (\<lambda>a. a\<lparr>a_status := ''completed''\<rparr>) (appointments s),
               doctors := update_first (\<lambda>d. d_user_id d = u)
                 (\<lambda>d. d\<lparr>d_total_consultations := d_total_consultations d + 1\<rparr>)
                 (doctors s)\<rparr>, Inr 0)"
  using assms by (simp add: complete_appointment_def Let_def)

section \<open>Booking: lead time, blocked slots, capacity\<close>

lemma lead_time_rejects:
  assumes "find (\<lambda>x. s_id x = br_slot_id request) (slots s) = Some slot"
      and "combine (s_date slot) (s_start_time slot) \<le> now_past_check env
           \<or> combine (s_date slot) (s_start_time slot) - now_lead_check env < hours 1"
  shows "\<exists>e. book_appointment s request env = (s, Inl e) \<and> e \<noteq> BookingFailed"
  using assms by (auto simp: book_appointment_def split: option.splits)

lemma lead_time_checks_pass:
  assumes "find (\<lambda>u. u = br_user_id request) (users s) = Some user"
      and "find (\<lambda>d. d_id d = br_doctor_id request \<and> d_is_available d) (doctors s) = Some doctor"
      and "find (\<lambda>x. s_id x = br_slot_id request) (slots s) = Some slot"
      and "\<not> s_is_booked slot" and "s_doctor_id slot = br_doctor_id request"
      and "s_date slot = br_date request"
      and "now_past_check env \<le> now_lead_check env"
      and "hours 1 \<le> combine (s_date slot) (s_start_time slot) - now_lead_check env"
      and "daily_appointments s request < max_daily_appointments"
  shows "book_appointment s request env = (s, Inl BookingFailed)"
proof -
  have "0 < hours 1" by (simp add: hours_def)
  with assms have "now_past_check env < combine (br_date request) (s_start_time slot)"
    by simp
  with assms show ?thesis
    by (simp add: book_appointment_def create_booking_fails)
qed

text \<open>
  C9. The claim has a slot starting in 59 minutes rejected and one starting in 61
  minutes accepted. The first is rejected by the lead-time check. The second passes
  both time checks and the cap, and is then answered with 500: the appointment object
  cannot be built, so nothing is stored.
\<close>

theorem no_booking_is_accepted:
  "book_appointment demo_db (demo_request ADVANCE) (minutes_before 59)
     = (demo_db, Inl BelowMinimumLeadTime)
   \<and> book_appointment demo_db (demo_request ADVANCE) (minutes_before 61)
     = (demo_db, Inl BookingFailed)
   \<and> status_code BookingFailed = 500"
  by code_simp



text \<open>
  C6. The claim has the pay-at-clinic appointment confirmed at once, without a payment
  record. The pay-at-clinic booking of the demo slot, two hours ahead, is answered
  with 500 and stores nothing: no payment record, and no appointment either.
\<close>

theorem pay_at_clinic_booking_fails:
  "book_appointment demo_db (demo_request PAY_AT_CLINIC) (minutes_before 120)
     = (demo_db, Inl BookingFailed)
   \<and> appointments demo_db = [] \<and> payments demo_db = []"
  by code_simp

text \<open>
  C8, as stated: twenty non-cancelled appointments on the day force a capacity error
  whatever the slot. With twenty completed appointments the answer is not the capacity
  error, and with twenty confirmed ones and a slot already taken the error is the
  slot's, since the slot is checked first.
\<close>

theorem completed_appointments_escape_the_cap:
  "non_cancelled_appointments (busy_day ''completed'') 7 20000 = 20
   \<and> snd (book_appointment (busy_day ''completed'') (demo_request ADVANCE) (minutes_before 120))
       \<noteq> Inl DailyCapReached
   \<and> non_cancelled_appointments (busy_day ''confirmed'') 7 20000 = 20
   \<and> snd (book_appointment ((busy_day ''confirmed'')\<lparr>slots := [demo_slot\<lparr>s_is_booked := True\<rparr>]\<rparr>)
        (demo_request ADVANCE) (minutes_before 120)) = Inl SlotAlreadyBooked"
  by code_simp

text \<open>
  C8, amended. For a request that passes the user, doctor, slot, date and lead-time
  validations, the answer is the capacity error exactly when the doctor has 20 or more
  appointments on that date in status confirmed or payment_pending.
\<close>

theorem daily_cap:
  assumes "find (\<lambda>u. u = br_user_id request) (users s) = Some user"
      and "find (\<lambda>d. d_id d = br_doctor_id request \<and> d_is_available d) (doctors s) = Some doctor"
      and "find (\<lambda>x. s_id x = br_slot_id request) (slots s) = Some slot"
      and "\<not> s_is_booked slot" and "s_doctor_id slot = br_doctor_id request"
      and "s_date slot = br_date request"
      and "now_past_check env < combine (br_date request) (s_start_time slot)"
      and "hours 1 \<le> combine (br_date request) (s_start_time slot) - now_lead_check env"
  shows "snd (book_appointment s request env) = Inl DailyCapReached
         \<longleftrightarrow> 20 \<le> daily_appointments s request"
  using assms
  by (simp add: book_appointment_def max_daily_appointments_def create_booking_fails)

theorem daily_cap_witness:
  "find (\<lambda>u. u = br_user_id (demo_request ADVANCE)) (users (busy_day ''confirmed'')) = Some 1
   \<and> \<not> s_is_booked demo_slot
   \<and> daily_appointments (busy_day ''confirmed'') (demo_request ADVANCE) = 20
   \<and> snd (book_appointment (busy_day ''confirmed'') (demo_request ADVANCE) (minutes_before 120))
       = Inl DailyCapReached"
proof -
  let ?s = "busy_day ''confirmed''" and ?r = "demo_request ADVANCE" and ?e = "minutes_before 120"
  have h1: "find (\<lambda>u. u = br_user_id ?r) (users ?s) = Some 1" by code_simp
  have h2: "find (\<lambda>d. d_id d = br_doctor_id ?r \<and> d_is_available d) (doctors ?s) = Some demo_doctor"
    by code_simp
  have h3: "find (\<lambda>x. s_id x = br_slot_id ?r) (slots ?s) = Some demo_slot" by code_simp
  have h4: "\<not> s_is_booked demo_slot" by code_simp
  have h5: "s_doctor_id demo_slot = br_doctor_id ?r" by code_simp
  have h6: "s_date demo_slot = br_date ?r" by code_simp
  have h7: "now_past_check ?e < combine (br_date ?r) (s_start_time demo_slot)" by code_simp
  have h8: "hours 1 \<le> combine (br_date ?r) (s_start_time demo_slot) - now_lead_check ?e"
    by code_simp
  have n: "daily_appointments ?s ?r = 20" by code_simp
  from daily_cap [OF h1 h2 h3 h4 h5 h6 h7 h8] n h1 h4 show ?thesis by simp
qed

section \<open>Settlement and refund\<close>

text \<open>
  C1. The claim has a second settlement of a paid payment change nothing and report
  success. On the seeded paid payment the verify call, validly signed, is answered
  with 500 and the captured webhook with 500, each leaving the store as it was; the
  same verify call on the pending payment is answered with 500 as well, and the credit
  that settlement would queue is refused by the store. Nothing is ever settled or
  credited, and no settlement call reports success.
\<close>

theorem settlement_reports_failure:
  "verify_payment demo_gateway paid_db 1 demo_verify_request = (paid_db, Inl VerificationFailed)
   \<and> razorpay_webhook demo_gateway paid_db ''body'' ''whsec_xxx:body''
        (PaymentCaptured (Some ''order_demo'') (Some ''pay_demo''))
      = (paid_db, Inl InternalServerError)
   \<and> verify_payment demo_gateway pending_db 1 demo_verify_request
      = (pending_db, Inl VerificationFailed)
   \<and> credit_doctor_wallet paid_db 7 800 ''APT123456'' = Inl IntegrityError
   \<and> status_code VerificationFailed = 500 \<and> status_code InternalServerError = 500"
  by code_simp

text \<open>
  C7. The claim forbids a paid or refunded payment from moving back. The webhook's
  \<open>payment.failed\<close> branch overwrites the status of any payment it finds: the seeded
  payment in status paid, and the one in status refunded, end in status failed.
\<close>

theorem failed_webhook_overwrites_status:
  "razorpay_webhook demo_gateway paid_db ''body'' ''whsec_xxx:body''
     (PaymentFailed (Some ''order_demo''))
   = (paid_db\<lparr>payments := [seeded_payment ''failed'']\<rparr>, Inr [])
   \<and> razorpay_webhook demo_gateway (paid_db\<lparr>payments := [seeded_payment ''refunded'']\<rparr>)
       ''body'' ''whsec_xxx:body'' (PaymentFailed (Some ''order_demo''))
   = (paid_db\<lparr>payments := [seeded_payment ''failed'']\<rparr>, Inr [])"
  by code_simp

lemma debit_insufficient:
  assumes "find (\<lambda>w. w_doctor_id w = doctor_id) (wallets s) = Some wallet"
      and "w_current_balance wallet < amount"
  shows "debit_doctor_wallet s doctor_id amount appointment_id
         = Inl (InsufficientBalance (w_current_balance wallet))"
  using assms by (simp add: debit_doctor_wallet_def)

text \<open>
  C5. The claim has the refund of a paid appointment, two days ahead, move the payment
  to refunded, cancel the appointment and debit the doctor's share. The refund call on
  the seeded paid payment is answered with 500 and changes nothing: the payment stays
  paid and the appointment confirmed. The debit itself raises the insufficient-funds
  error on a wallet below the share, and on a wallet that holds the share its row is
  refused by the store.
\<close>

theorem refund_changes_nothing:
  "initiate_refund demo_gateway paid_db 1 demo_refund_request two_days_before two_days_before
     = (paid_db, Inl InternalServerError)
   \<and> map p_payment_status (payments paid_db) = [''paid'']
   \<and> map a_status (appointments paid_db) = [''confirmed'']
   \<and> debit_doctor_wallet paid_db 7 800 ''APT123456'' = Inl (InsufficientBalance 0)
   \<and> debit_doctor_wallet funded_db 7 800 ''APT123456'' = Inl IntegrityError"
  by code_simp

section \<open>Completion and the wallet\<close>

text \<open>
  C10. The claim has every completion credit the doctor's full fee to the wallet when
  one exists. With the wallet that registration creates, the completion of the seeded
  appointment is answered with 500 and stores nothing, not even the status completed.
  Without a wallet row the appointment is completed and nothing is credited.
\<close>

theorem completion_credits_nothing:
  "complete_appointment paid_db 2 ''APT123456'' False = (paid_db, Inl InternalServerError)
   \<and> complete_appointment (paid_db\<lparr>wallets := []\<rparr>) 2 ''APT123456'' False
      = (paid_db\<lparr>wallets := [],
                 appointments := [seeded_appointment ''completed''],
                 doctors := [demo_doctor\<lparr>d_total_consultations := 1\<rparr>]\<rparr>, Inr 0)"
  by code_simp

section \<open>Wallet reconciliation\<close>




end
